theory Spec2Isabelle
  imports Complex_Main "HOL-Library.AList"
begin

section \<open>Values shared by the three modules\<close>

subsection \<open>Formatted strings\<close>

text \<open>
  A Python f-string is kept as the list of its parts, in order: a literal piece, a float
  rendered with \<^verbatim>\<open>:.2f\<close>, or an integer rendered in decimal. The rendering of
  numbers to characters is Python's own and is not unfolded. Floats are exact
  rationals here: the rounding of a float subtraction is outside the model.
\<close>

datatype fragment = Lit string | Fixed2 rat | Dec int

type_synonym ftext = "fragment list"

subsection \<open>Exceptions\<close>

text \<open>
  The exception classes the handlers of the source tell apart, with the subclass order
  of the \<^verbatim>\<open>requests\<close> library: \<^verbatim>\<open>HTTPError\<close>, \<^verbatim>\<open>ConnectionError\<close> and
  \<^verbatim>\<open>Timeout\<close> are subclasses of \<^verbatim>\<open>RequestException\<close>, and every class here is a
  subclass of \<^verbatim>\<open>Exception\<close>. An exception carries its class and the text that
  \<^verbatim>\<open>str\<close> gives for it.
\<close>

datatype exc_class =
  HTTPError | ConnectionError | Timeout | RequestException | ValueError | TypeError | Exception

datatype exn = Exn (exc_type: exc_class) (exc_str: ftext)

definition is_HTTPError :: "exn \<Rightarrow> bool" where
  "is_HTTPError e = (exc_type e = HTTPError)"

definition is_RequestException :: "exn \<Rightarrow> bool" where
  "is_RequestException e =
     (exc_type e = HTTPError \<or> exc_type e = ConnectionError \<or> exc_type e = Timeout \<or>
      exc_type e = RequestException)"

subsection \<open>Structured data, sessions, requests and responses\<close>

datatype json =
  JNull | JBool bool | JInt int | JString string | JArray "json list"
  | JObject "(string \<times> json) list"

text \<open>
  \<^verbatim>\<open>requests.Session\<close>: the headers the code sets (the library's default headers, none
  of which is \<^verbatim>\<open>Authorization\<close>, are left out), the \<^verbatim>\<open>auth\<close> attribute and the
  proxy table.
\<close>

record session =
  headers :: "(string \<times> string) list"
  auth :: "(string \<times> string) option"
  proxies :: "(string \<times> string) list"

definition Session :: session where
  "Session = \<lparr>headers = [], auth = None, proxies = []\<rparr>"

text \<open>
  One call of \<^verbatim>\<open>session.request\<close> or \<^verbatim>\<open>session.get\<close>: the session it goes through
  and the arguments the source passes. \<open>timeout = None\<close> is the library's default: no
  bound.
\<close>

record request =
  via :: session
  http_method :: string
  url :: string
  params :: "(string \<times> json) list option"
  json_data :: "(string \<times> json) list option"
  timeout :: "nat option"

text \<open>
  \<^verbatim>\<open>requests.Response\<close>: \<open>json_result\<close> is what \<^verbatim>\<open>response.json()\<close> gives, the
  decoded body or the exception it raises.
\<close>

record response =
  status_code :: int
  reason :: string
  response_url :: string
  body_text :: string
  json_result :: "exn + json"

text \<open>
  \<^verbatim>\<open>Response.raise_for_status\<close> of the library: an \<^verbatim>\<open>HTTPError\<close> for a status in
  400..599, nothing otherwise. \<^verbatim>\<open>Response.__bool__\<close> is \<^verbatim>\<open>Response.ok\<close>, which is
  true when \<^verbatim>\<open>raise_for_status\<close> does not raise.
\<close>

definition raise_for_status :: "response \<Rightarrow> exn option" where
  "raise_for_status r =
     (if 400 \<le> status_code r \<and> status_code r < 500 then
        Some (Exn HTTPError [Dec (status_code r), Lit '' Client Error: '', Lit (reason r),
                             Lit '' for url: '', Lit (response_url r)])
      else if 500 \<le> status_code r \<and> status_code r < 600 then
        Some (Exn HTTPError [Dec (status_code r), Lit '' Server Error: '', Lit (reason r),
                             Lit '' for url: '', Lit (response_url r)])
      else None)"

definition ok :: "response \<Rightarrow> bool" where
  "ok r = (raise_for_status r = None)"

text \<open>Truth value of an \<^verbatim>\<open>Optional[str]\<close>: \<^verbatim>\<open>None\<close> and the empty string are false.\<close>

definition truthy :: "string option \<Rightarrow> bool" where
  "truthy s = (case s of None \<Rightarrow> False | Some v \<Rightarrow> v \<noteq> [])"

section \<open>The logging library and the state of the process\<close>

datatype levelname = INFO | ERROR

fun levelno :: "levelname \<Rightarrow> nat" where
  "levelno INFO = 20"
| "levelno ERROR = 40"

text \<open>A stream handler with the format string of its formatter; its own level is NOTSET.\<close>

datatype handler = StreamHandler string

text \<open>
  A \<^verbatim>\<open>Logger\<close> object: its level (NOTSET is 0), its handlers, its \<^verbatim>\<open>propagate\<close> flag and
  its parent, by name. Loggers are handed around by their names; the root logger is the
  one named \<open>root\<close>.
\<close>

record logger =
  level :: nat
  handlers :: "handler list"
  propagate :: bool
  parent :: "string option"

text \<open>
  An entry of \<^verbatim>\<open>Manager.loggerDict\<close>: a logger, or a placeholder that lists the loggers
  created below a name that has no logger yet.
\<close>

datatype dict_entry = ALogger | PlaceHolder "string list"

text \<open>One line written to the standard error stream (the time stamp is left out).\<close>

record log_line =
  line_format :: string
  line_name :: string
  line_level :: levelname
  line_message :: ftext

text \<open>
  The state the code reads and writes: the manager's dictionary of names, the logger
  objects by name, the lines written to the standard error stream, and the requests sent
  so far.
\<close>

record world =
  loggerDict :: "string \<Rightarrow> dict_entry option"
  loggers :: "string \<Rightarrow> logger"
  stderr :: "log_line list"
  sent :: "request list"

text \<open>\<^verbatim>\<open>str.rfind\<close> for one character; \<open>None\<close> stands for -1.\<close>

fun rfind :: "char \<Rightarrow> string \<Rightarrow> nat option" where
  "rfind c [] = None"
| "rfind c (x # xs) =
     (case rfind c xs of
        Some i \<Rightarrow> Some (Suc i)
      | None \<Rightarrow> if x = c then Some 0 else None)"

text \<open>
  The prefixes that the loop of \<^verbatim>\<open>Manager._fixupParents\<close> visits, nearest first:
  \<^verbatim>\<open>i = name.rfind(".")\<close>, then \<^verbatim>\<open>name[:i]\<close> while \<^verbatim>\<open>i > 0\<close>, with
  \<^verbatim>\<open>i = name.rfind(".", 0, i - 1)\<close> for the next round.
\<close>

function fixup_candidates :: "string \<Rightarrow> nat option \<Rightarrow> string list" where
  "fixup_candidates name None = []"
| "fixup_candidates name (Some i) =
     (if 0 < i
      then take i name # fixup_candidates name (rfind (CHR ''.'') (take (i - 1) name))
      else [])"
  by pat_completeness auto
termination
proof (relation "measure (\<lambda>(name, i). case i of None \<Rightarrow> 0 | Some j \<Rightarrow> Suc j)")
  show "wf (measure (\<lambda>(name :: string, i). case i of None \<Rightarrow> 0 | Some j \<Rightarrow> Suc j))"
    by simp
next
  fix name :: string and i :: nat
  assume "0 < i"
  have bound: "rfind c s = Some j \<Longrightarrow> j < length s" for c s j
    by (induction s arbitrary: j) (auto split: option.splits if_splits)
  show "((name, rfind (CHR ''.'') (take (i - 1) name)), (name, Some i))
          \<in> measure (\<lambda>(name, i). case i of None \<Rightarrow> 0 | Some j \<Rightarrow> Suc j)"
  proof (cases "rfind (CHR ''.'') (take (i - 1) name)")
    case None
    then show ?thesis by simp
  next
    case (Some j)
    from bound [OF Some] have "j < i - 1" by simp
    with Some show ?thesis by simp
  qed
qed

text \<open>
  The loop of \<^verbatim>\<open>Manager._fixupParents\<close> over these prefixes: a name with no entry gets a
  placeholder, a placeholder gets the new logger as one more child, and the first name
  that has a logger ends the loop and is the parent; with none, the parent is the root.
\<close>

fun fixupParents :: "string \<Rightarrow> string list \<Rightarrow> (string \<Rightarrow> dict_entry option)
    \<Rightarrow> (string \<Rightarrow> dict_entry option) \<times> string" where
  "fixupParents name [] d = (d, ''root'')"
| "fixupParents name (substr # rest) d =
     (case d substr of
        None \<Rightarrow> fixupParents name rest (d(substr \<mapsto> PlaceHolder [name]))
      | Some ALogger \<Rightarrow> (d, substr)
      | Some (PlaceHolder cs) \<Rightarrow>
          fixupParents name rest
            (d(substr \<mapsto> PlaceHolder (if name \<in> set cs then cs else cs @ [name]))))"

text \<open>
  \<^verbatim>\<open>Manager._fixupChildren\<close>: a child of the placeholder whose parent's name does not start
  with the new logger's name is put under the new logger.
\<close>

fun fixupChildren :: "string \<Rightarrow> string list \<Rightarrow> (string \<Rightarrow> logger) \<Rightarrow> (string \<Rightarrow> logger)" where
  "fixupChildren name [] ls = ls"
| "fixupChildren name (c # cs) ls =
     (case parent (ls c) of
        Some p \<Rightarrow>
          if take (length name) p \<noteq> name
          then fixupChildren name cs
                 (ls(name := (ls name)\<lparr>parent := Some p\<rparr>, c := (ls c)\<lparr>parent := Some name\<rparr>))
          else fixupChildren name cs ls
      | None \<Rightarrow> fixupChildren name cs ls)"

definition Logger :: logger where
  "Logger = \<lparr>level = 0, handlers = [], propagate = True, parent = None\<rparr>"

text \<open>
  \<^verbatim>\<open>logging.getLogger\<close>: the empty name and the name \<open>root\<close> give the root logger; any
  other name gives the logger of that name, created on first use and then linked into the
  hierarchy.
\<close>

definition getLogger :: "string \<Rightarrow> world \<Rightarrow> string \<times> world" where
  "getLogger name w =
     (if name = [] \<or> name = ''root'' then (''root'', w)
      else
        case loggerDict w name of
          Some ALogger \<Rightarrow> (name, w)
        | Some (PlaceHolder cs) \<Rightarrow>
            (let ls1 = (loggers w)(name := Logger);
                 d1 = (loggerDict w)(name \<mapsto> ALogger);
                 ls2 = fixupChildren name cs ls1;
                 (d2, p) = fixupParents name (fixup_candidates name (rfind (CHR ''.'') name)) d1
             in (name, w\<lparr>loggerDict := d2,
                          loggers := ls2(name := (ls2 name)\<lparr>parent := Some p\<rparr>)\<rparr>))
        | None \<Rightarrow>
            (let ls1 = (loggers w)(name := Logger);
                 d1 = (loggerDict w)(name \<mapsto> ALogger);
                 (d2, p) = fixupParents name (fixup_candidates name (rfind (CHR ''.'') name)) d1
             in (name, w\<lparr>loggerDict := d2,
                          loggers := ls1(name := (ls1 name)\<lparr>parent := Some p\<rparr>)\<rparr>)))"

text \<open>
  The loggers from a logger up to the root, along the parent links. The library makes
  every parent a proper prefix of the name, or the root, so the walk ends; the test on
  the lengths keeps the function total on states the library cannot produce.
\<close>

function ancestry :: "(string \<Rightarrow> logger) \<Rightarrow> string \<Rightarrow> string list" where
  "ancestry ls n =
     (if n = ''root'' then [n]
      else case parent (ls n) of
             None \<Rightarrow> [n]
           | Some p \<Rightarrow>
               if p = ''root'' \<or> length p < length n then n # ancestry ls p else [n])"
  by pat_completeness auto
termination
  by (relation "measure (\<lambda>(ls, n). if n = ''root'' then 0 else Suc (length n))") auto

text \<open>\<^verbatim>\<open>Logger.getEffectiveLevel\<close>: the first level on the way up that is set.\<close>

fun first_set_level :: "nat list \<Rightarrow> nat" where
  "first_set_level [] = 0"
| "first_set_level (l # ls) = (if l \<noteq> 0 then l else first_set_level ls)"

definition getEffectiveLevel :: "(string \<Rightarrow> logger) \<Rightarrow> string \<Rightarrow> nat" where
  "getEffectiveLevel ls n = first_set_level (map (\<lambda>a. level (ls a)) (ancestry ls n))"

definition emit :: "string \<Rightarrow> levelname \<Rightarrow> ftext \<Rightarrow> handler \<Rightarrow> log_line" where
  "emit name lv msg h =
     (case h of StreamHandler fmt \<Rightarrow>
        \<lparr>line_format = fmt, line_name = name, line_level = lv, line_message = msg\<rparr>)"

text \<open>
  \<^verbatim>\<open>Logger.callHandlers\<close>: the record goes to the handlers of the logger and then of each
  ancestor in turn, as long as the loggers on the way propagate; when no handler was found
  at all, the library's last-resort handler writes the bare message, for WARNING and above.
\<close>

fun propagation :: "(string \<Rightarrow> logger) \<Rightarrow> string list \<Rightarrow> string list" where
  "propagation ls [] = []"
| "propagation ls (a # as) = a # (if propagate (ls a) then propagation ls as else [])"

definition handlers_found :: "(string \<Rightarrow> logger) \<Rightarrow> string \<Rightarrow> handler list" where
  "handlers_found ls n = concat (map (\<lambda>a. handlers (ls a)) (propagation ls (ancestry ls n)))"

definition callHandlers ::
  "(string \<Rightarrow> logger) \<Rightarrow> string \<Rightarrow> levelname \<Rightarrow> ftext \<Rightarrow> log_line list" where
  "callHandlers ls n lv msg =
     (if handlers_found ls n = [] then
        (if 30 \<le> levelno lv then [emit n lv msg (StreamHandler ''%(message)s'')] else [])
      else map (emit n lv msg) (handlers_found ls n))"

text \<open>
  \<^verbatim>\<open>Logger.info\<close> and \<^verbatim>\<open>Logger.error\<close> on the logger of the given name
  (\<^verbatim>\<open>logging.disable\<close> is not in force).
\<close>

definition logger_log :: "levelname \<Rightarrow> string \<Rightarrow> ftext \<Rightarrow> world \<Rightarrow> world" where
  "logger_log lv name msg w =
     (if getEffectiveLevel (loggers w) name \<le> levelno lv
      then w\<lparr>stderr := stderr w @ callHandlers (loggers w) name lv msg\<rparr>
      else w)"

definition logger_info :: "string \<Rightarrow> ftext \<Rightarrow> world \<Rightarrow> world" where
  "logger_info = logger_log INFO"

definition logger_error :: "string \<Rightarrow> ftext \<Rightarrow> world \<Rightarrow> world" where
  "logger_error = logger_log ERROR"

section \<open>utils/logging.py\<close>

definition log_format :: string where
  "log_format = ''%(asctime)s - %(name)s - %(levelname)s - %(message)s''"

text \<open>
  \<^verbatim>\<open>configure_logger\<close>: the logger of that name gets level INFO and one more stream
  handler. The handler is a new object each time, so \<^verbatim>\<open>addHandler\<close> always appends it.
\<close>

definition configure_logger :: "string \<Rightarrow> world \<Rightarrow> string \<times> world" where
  "configure_logger name w =
     (let (lg, w1) = getLogger name w;
          w2 = w1\<lparr>loggers := (loggers w1)(lg := (loggers w1 lg)\<lparr>level := 20\<rparr>)\<rparr>;
          handler = StreamHandler log_format;
          w3 = w2\<lparr>loggers := (loggers w2)
                  (lg := (loggers w2 lg)\<lparr>handlers := handlers (loggers w2 lg) @ [handler]\<rparr>)\<rparr>
      in (lg, w3))"

text \<open>
  \<^verbatim>\<open>log_and_trace\<close>: \<open>now\<close> is what \<^verbatim>\<open>time.time()\<close> returns inside the call. The test
  \<^verbatim>\<open>if response\<close> is the truth value of the response, not a comparison with
  \<^verbatim>\<open>None\<close>.
\<close>

definition log_and_trace ::
  "rat \<Rightarrow> string \<Rightarrow> string \<Rightarrow> rat \<Rightarrow> response option \<Rightarrow> world \<Rightarrow> world" where
  "log_and_trace now lg method_name start_time resp w =
     (let elapsed_time = now - start_time in
      case resp of
        Some r \<Rightarrow>
          if ok r then
            logger_info lg [Lit method_name, Lit '' completed in '', Fixed2 elapsed_time,
                            Lit ''s with status code '', Dec (status_code r)] w
          else
            logger_info lg [Lit method_name, Lit '' completed in '', Fixed2 elapsed_time,
                            Lit ''s''] w
      | None \<Rightarrow>
          logger_info lg [Lit method_name, Lit '' completed in '', Fixed2 elapsed_time,
                          Lit ''s''] w)"

section \<open>base/abstract\_api\_collector.py\<close>

record api_collector =
  base_url :: string
  api_key :: "string option"
  username :: "string option"
  password :: "string option"
  session :: session
  logger :: string

text \<open>
  \<^verbatim>\<open>_configure_session\<close> reads the three credential attributes; the two tests are
  separate \<^verbatim>\<open>if\<close> statements.
\<close>

definition configure_session ::
  "string option \<Rightarrow> string option \<Rightarrow> string option \<Rightarrow> session" where
  "configure_session key user pass =
     (let s = Session;
          s1 = (case key of
                  Some k \<Rightarrow>
                    if truthy key
                    then s\<lparr>headers := AList.update ''Authorization'' (''Bearer '' @ k) (headers s)\<rparr>
                    else s
                | None \<Rightarrow> s);
          s2 = (case (user, pass) of
                  (Some u, Some p) \<Rightarrow>
                    if truthy user \<and> truthy pass then s1\<lparr>auth := Some (u, p)\<rparr> else s1
                | _ \<Rightarrow> s1)
      in s2)"

text \<open>\<^verbatim>\<open>__init__\<close>; \<open>cls\<close> is \<^verbatim>\<open>self.__class__.__name__\<close>.\<close>

definition api_init ::
  "string \<Rightarrow> string \<Rightarrow> string option \<Rightarrow> string option \<Rightarrow> string option \<Rightarrow> world
   \<Rightarrow> api_collector \<times> world" where
  "api_init cls burl key user pass w =
     (let s = configure_session key user pass;
          (lg, w') = configure_logger cls w
      in (\<lparr>base_url = burl, api_key = key, username = user, password = pass,
           session = s, logger = lg\<rparr>, w'))"

text \<open>
  \<^verbatim>\<open>_make_request\<close>. \<open>net\<close> is the network: what \<^verbatim>\<open>session.request\<close> returns or
  raises for a request. \<open>tstart\<close> and \<open>tnow\<close> are the two readings of \<^verbatim>\<open>time.time()\<close>.
  The body of the \<^verbatim>\<open>try\<close> comes first, then the three handlers in their order.
\<close>

definition make_request_try ::
  "(request \<Rightarrow> exn + response) \<Rightarrow> rat \<Rightarrow> rat \<Rightarrow> api_collector \<Rightarrow> string \<Rightarrow> string
   \<Rightarrow> (string \<times> json) list option \<Rightarrow> (string \<times> json) list option \<Rightarrow> world
   \<Rightarrow> (exn + json) \<times> world" where
  "make_request_try net tstart tnow self method endpoint ps data w =
     (let u = base_url self @ ''/'' @ endpoint;
          start_time = tstart;
          req = \<lparr>via = session self, http_method = method, url = u, params = ps,
                 json_data = data, timeout = None\<rparr>;
          w1 = w\<lparr>sent := sent w @ [req]\<rparr>
      in case net req of
           Inl e \<Rightarrow> (Inl e, w1)
         | Inr r \<Rightarrow>
             (case raise_for_status r of
                Some e \<Rightarrow> (Inl e, w1)
              | None \<Rightarrow>
                  (json_result r,
                   log_and_trace tnow (logger self) ''_make_request'' start_time (Some r) w1)))"

definition make_request ::
  "(request \<Rightarrow> exn + response) \<Rightarrow> rat \<Rightarrow> rat \<Rightarrow> api_collector \<Rightarrow> string \<Rightarrow> string
   \<Rightarrow> (string \<times> json) list option \<Rightarrow> (string \<times> json) list option \<Rightarrow> world
   \<Rightarrow> (exn + json) \<times> world" where
  "make_request net tstart tnow self method endpoint ps data w =
     (case make_request_try net tstart tnow self method endpoint ps data w of
        (Inr v, w') \<Rightarrow> (Inr v, w')
      | (Inl e, w') \<Rightarrow>
          if is_HTTPError e then
            (Inl e, logger_error (logger self) (Lit ''HTTP error occurred: '' # exc_str e) w')
          else if is_RequestException e then
            (Inl e, logger_error (logger self) (Lit ''Request error occurred: '' # exc_str e) w')
          else
            (Inl e, logger_error (logger self) (Lit ''Unexpected error: '' # exc_str e) w'))"

section \<open>base/abstract\_scraper.py\<close>

record scraper =
  scraper_base_url :: string
  user_agent :: string
  scraper_proxies :: "(string \<times> string) list option"
  scraper_session :: session
  scraper_logger :: string

definition scraper_configure_session ::
  "string \<Rightarrow> (string \<times> string) list option \<Rightarrow> session" where
  "scraper_configure_session agent prox =
     (let s = Session;
          s1 = s\<lparr>headers := AList.update ''User-Agent'' agent (headers s)\<rparr>
      in case prox of
           Some p \<Rightarrow> if p \<noteq> [] then s1\<lparr>proxies := AList.merge (proxies s1) p\<rparr> else s1
         | None \<Rightarrow> s1)"

definition scraper_init ::
  "string \<Rightarrow> string \<Rightarrow> string option \<Rightarrow> (string \<times> string) list option \<Rightarrow> world
   \<Rightarrow> scraper \<times> world" where
  "scraper_init cls burl agent prox w =
     (let ua = (case agent of
                  Some a \<Rightarrow> if truthy agent then a
                            else ''Mozilla/5.0 (compatible; AbstractScraper/1.0)''
                | None \<Rightarrow> ''Mozilla/5.0 (compatible; AbstractScraper/1.0)'');
          s = scraper_configure_session ua prox;
          (lg, w') = configure_logger cls w
      in (\<lparr>scraper_base_url = burl, user_agent = ua, scraper_proxies = prox,
           scraper_session = s, scraper_logger = lg\<rparr>, w'))"

text \<open>
  \<^verbatim>\<open>_fetch_page\<close>: a GET with \<^verbatim>\<open>timeout=10\<close>; two handlers only, so any other
  exception leaves the function as it is.
\<close>

definition fetch_page_try ::
  "(request \<Rightarrow> exn + response) \<Rightarrow> rat \<Rightarrow> rat \<Rightarrow> scraper \<Rightarrow> string
   \<Rightarrow> (string \<times> json) list option \<Rightarrow> world \<Rightarrow> (exn + string) \<times> world" where
  "fetch_page_try net tstart tnow self endpoint ps w =
     (let u = scraper_base_url self @ ''/'' @ endpoint;
          start_time = tstart;
          req = \<lparr>via = scraper_session self, http_method = ''GET'', url = u, params = ps,
                 json_data = None, timeout = Some 10\<rparr>;
          w1 = w\<lparr>sent := sent w @ [req]\<rparr>
      in case net req of
           Inl e \<Rightarrow> (Inl e, w1)
         | Inr r \<Rightarrow>
             (case raise_for_status r of
                Some e \<Rightarrow> (Inl e, w1)
              | None \<Rightarrow>
                  (Inr (body_text r),
                   log_and_trace tnow (scraper_logger self) ''_fetch_page'' start_time
                     (Some r) w1)))"

definition fetch_page ::
  "(request \<Rightarrow> exn + response) \<Rightarrow> rat \<Rightarrow> rat \<Rightarrow> scraper \<Rightarrow> string
   \<Rightarrow> (string \<times> json) list option \<Rightarrow> world \<Rightarrow> (exn + string) \<times> world" where
  "fetch_page net tstart tnow self endpoint ps w =
     (case fetch_page_try net tstart tnow self endpoint ps w of
        (Inr v, w') \<Rightarrow> (Inr v, w')
      | (Inl e, w') \<Rightarrow>
          if is_HTTPError e then
            (Inl e, logger_error (scraper_logger self)
                      (Lit ''HTTP error occurred while fetching page: '' # exc_str e) w')
          else if is_RequestException e then
            (Inl e, logger_error (scraper_logger self)
                      (Lit ''Request error occurred while fetching page: '' # exc_str e) w')
          else (Inl e, w'))"

text \<open>
  \<^verbatim>\<open>_parse_html\<close>. \<open>soup\<close> is the markup engine: what
  \<^verbatim>\<open>BeautifulSoup(html_content, "html.parser")\<close> returns or raises.
\<close>

definition parse_html ::
  "(string \<Rightarrow> exn + 'soup) \<Rightarrow> scraper \<Rightarrow> string \<Rightarrow> world \<Rightarrow> (exn + 'soup) \<times> world" where
  "parse_html soup self html_content w =
     (case soup html_content of
        Inr tree \<Rightarrow> (Inr tree, w)
      | Inl err \<Rightarrow>
          (Inl (Exn ValueError (Lit ''Invalid HTML content: '' # exc_str err)),
           logger_error (scraper_logger self)
             (Lit ''Error while parsing HTML: '' # exc_str err) w))"

section \<open>Notation for the statements\<close>

text \<open>The request each of the two functions builds, and the messages they log.\<close>

abbreviation api_request ::
  "api_collector \<Rightarrow> string \<Rightarrow> string \<Rightarrow> (string \<times> json) list option
   \<Rightarrow> (string \<times> json) list option \<Rightarrow> request" where
  "api_request c m ep ps d \<equiv>
     \<lparr>via = session c, http_method = m, url = base_url c @ ''/'' @ ep, params = ps,
      json_data = d, timeout = None\<rparr>"

abbreviation page_request ::
  "scraper \<Rightarrow> string \<Rightarrow> (string \<times> json) list option \<Rightarrow> request" where
  "page_request s ep ps \<equiv>
     \<lparr>via = scraper_session s, http_method = ''GET'', url = scraper_base_url s @ ''/'' @ ep,
      params = ps, json_data = None, timeout = Some 10\<rparr>"

abbreviation api_error_text :: "exn \<Rightarrow> ftext" where
  "api_error_text e \<equiv>
     Lit (if is_HTTPError e then ''HTTP error occurred: ''
          else if is_RequestException e then ''Request error occurred: ''
          else ''Unexpected error: '') # exc_str e"

abbreviation completed_with_status :: "string \<Rightarrow> rat \<Rightarrow> int \<Rightarrow> ftext" where
  "completed_with_status op elapsed code \<equiv>
     [Lit op, Lit '' completed in '', Fixed2 elapsed, Lit ''s with status code '', Dec code]"

abbreviation is_info :: "log_line \<Rightarrow> bool" where
  "is_info l \<equiv> line_level l = INFO"

abbreviation is_error :: "log_line \<Rightarrow> bool" where
  "is_error l \<equiv> line_level l = ERROR"


section \<open>Concrete environments\<close>

text \<open>
  A process that has created no logger but the root (level WARNING, no handler) and sent
  nothing; a network that answers every
  request with one response, or raises one exception; a markup engine that accepts, or
  raises; three responses; and one instance of each class, built in the fresh process.
\<close>

definition fresh_world :: world where
  "fresh_world =
     \<lparr>loggerDict = (\<lambda>name. None),
      loggers = (\<lambda>name. if name = ''root'' then Logger\<lparr>level := 30\<rparr> else Logger),
      stderr = [], sent = []\<rparr>"

definition responds :: "response \<Rightarrow> request \<Rightarrow> exn + response" where
  "responds r req = Inr r"

definition fails_with :: "exn \<Rightarrow> request \<Rightarrow> exn + response" where
  "fails_with e req = Inl e"

definition accepts :: "string \<Rightarrow> exn + unit" where
  "accepts html_content = Inr ()"

definition rejects :: "exn \<Rightarrow> string \<Rightarrow> exn + unit" where
  "rejects e html_content = Inl e"

definition found :: response where
  "found = \<lparr>status_code = 200, reason = ''OK'',
             response_url = ''https://api.example.com/users/1'', body_text = ''{}'',
             json_result = Inr (JObject [])\<rparr>"

definition not_found :: response where
  "not_found = \<lparr>status_code = 404, reason = ''Not Found'',
                 response_url = ''https://api.example.com/users/1'', body_text = '''',
                 json_result = Inl (Exn ValueError [Lit ''Expecting value''])\<rparr>"

definition not_json :: response where
  "not_json = \<lparr>status_code = 200, reason = ''OK'',
                response_url = ''https://api.example.com/users/1'', body_text = ''<html>'',
                json_result = Inl (Exn ValueError [Lit ''Expecting value''])\<rparr>"

definition example_collector :: api_collector where
  "example_collector =
     fst (api_init ''ExampleCollector'' ''https://api.example.com'' None None None fresh_world)"

definition example_scraper :: scraper where
  "example_scraper =
     fst (scraper_init ''ExampleScraper'' ''https://example.com'' None None fresh_world)"

definition example_world :: world where
  "example_world =
     snd (scraper_init ''ExampleScraper'' ''https://example.com'' None None
            (snd (api_init ''ExampleCollector'' ''https://api.example.com'' None None None
                    fresh_world)))"

section \<open>Facts about the library model\<close>

lemma raise_for_status_HTTPError:
  "raise_for_status r = Some e \<Longrightarrow> is_HTTPError e"
  by (auto simp add: raise_for_status_def is_HTTPError_def split: if_splits)

lemma raise_for_status_None_iff:
  "raise_for_status r = None \<longleftrightarrow> status_code r < 400 \<or> 600 \<le> status_code r"
  by (auto simp add: raise_for_status_def)

lemma emit_level [simp]: "line_level (emit n lv msg h) = lv"
  by (cases h) (simp add: emit_def)

lemma filter_emit_same [simp]:
  "filter (\<lambda>l. line_level l = lv) (map (emit n lv msg) hs) = map (emit n lv msg) hs"
  by (induction hs) simp_all

lemma filter_emit_other [simp]:
  "lv' \<noteq> lv \<Longrightarrow> filter (\<lambda>l. line_level l = lv') (map (emit n lv msg) hs) = []"
  by (induction hs) simp_all

subsection \<open>Creating loggers\<close>





lemma fixupChildren_keeps:
  "handlers (fixupChildren name cs ls a) = handlers (ls a) \<and>
   level (fixupChildren name cs ls a) = level (ls a) \<and>
   propagate (fixupChildren name cs ls a) = propagate (ls a)"
  by (induction cs arbitrary: ls) (simp_all split: option.splits)

lemma fixupChildren_fields [simp]:
  "handlers (fixupChildren name cs ls a) = handlers (ls a)"
  "level (fixupChildren name cs ls a) = level (ls a)"
  "propagate (fixupChildren name cs ls a) = propagate (ls a)"
  using fixupChildren_keeps [of name cs ls a] by simp_all

lemma fst_getLogger:
  "fst (getLogger n w) = (if n = [] \<or> n = ''root'' then ''root'' else n)"
  by (simp add: getLogger_def Let_def case_prod_beta split: option.splits dict_entry.splits)


lemma getLogger_frame [simp]:
  "stderr (snd (getLogger n w)) = stderr w" "sent (snd (getLogger n w)) = sent w"
  by (simp_all add: getLogger_def Let_def case_prod_beta split: option.splits dict_entry.splits)





subsection \<open>The way from a logger to the root\<close>

declare ancestry.simps [simp del]

lemma ancestry_Cons: "ancestry ls n = n # tl (ancestry ls n)"
proof -
  have "\<exists>rest. ancestry ls n = n # rest"
    by (subst ancestry.simps) (simp split: option.splits)
  then show ?thesis by auto
qed

lemma ancestry_root [simp]: "ancestry ls ''root'' = [''root'']"
  by (subst ancestry.simps) simp









lemma effective_level_own:
  "level (ls n) \<noteq> 0 \<Longrightarrow> getEffectiveLevel ls n = level (ls n)"
  unfolding getEffectiveLevel_def by (subst ancestry_Cons) simp

subsection \<open>Logging calls\<close>

lemma logger_log_frame [simp]:
  "sent (logger_log lv n msg w) = sent w"
  "loggers (logger_log lv n msg w) = loggers w"
  "loggerDict (logger_log lv n msg w) = loggerDict w"
  by (simp_all add: logger_log_def)

lemma logger_log_configured:
  assumes "level (loggers w n) = 20" and "handlers_found (loggers w) n = hs" and "hs \<noteq> []"
  shows "stderr (logger_log lv n msg w) = stderr w @ map (emit n lv msg) hs"
  using assms
  by (cases lv) (simp_all add: logger_log_def effective_level_own callHandlers_def)

lemma stderr_logger_error:
  assumes "level (loggers w n) = 20" and "handlers_found (loggers w) n = hs" and "hs \<noteq> []"
  shows "stderr (logger_error n msg w) = stderr w @ map (emit n ERROR msg) hs"
  unfolding logger_error_def using assms by (rule logger_log_configured)

lemma stderr_logger_info:
  assumes "level (loggers w n) = 20" and "handlers_found (loggers w) n = hs"
  shows "stderr (logger_info n msg w) = stderr w @ map (emit n INFO msg) hs"
  using assms
  by (simp add: logger_info_def logger_log_def effective_level_own callHandlers_def)

lemma logger_error_frame [simp]:
  "sent (logger_error n msg w) = sent w" "loggers (logger_error n msg w) = loggers w"
  by (simp_all add: logger_error_def)

lemma info_lines_logger_error [simp]:
  "filter is_info (stderr (logger_error n msg w)) = filter is_info (stderr w)"
  by (simp add: logger_error_def logger_log_def callHandlers_def)

section \<open>Facts about utils/logging.py\<close>

lemma log_and_trace_sent [simp]: "sent (log_and_trace now lg mn st resp w) = sent w"
  by (simp add: log_and_trace_def logger_info_def Let_def split: option.splits)

lemma log_and_trace_loggers [simp]: "loggers (log_and_trace now lg mn st resp w) = loggers w"
  by (simp add: log_and_trace_def logger_info_def Let_def split: option.splits)

lemma error_lines_log_and_trace [simp]:
  "filter is_error (stderr (log_and_trace now n op st resp w)) = filter is_error (stderr w)"
  by (simp add: log_and_trace_def logger_info_def logger_log_def Let_def callHandlers_def
      split: option.splits)

lemma stderr_log_and_trace_ok:
  assumes "level (loggers w n) = 20" and "handlers_found (loggers w) n = hs" and "ok r"
  shows "stderr (log_and_trace now n op st (Some r) w) =
           stderr w @ map (emit n INFO (completed_with_status op (now - st) (status_code r))) hs"
  using assms by (simp add: log_and_trace_def Let_def stderr_logger_info)

lemma stderr_log_and_trace_not_ok:
  assumes "level (loggers w n) = 20" and "handlers_found (loggers w) n = hs" and "\<not> ok r"
  shows "stderr (log_and_trace now n op st (Some r) w) =
           stderr w @ map (emit n INFO [Lit op, Lit '' completed in '', Fixed2 (now - st),
                                        Lit ''s'']) hs"
  using assms by (simp add: log_and_trace_def Let_def stderr_logger_info)



lemma configure_logger_eq:
  "configure_logger n w =
     (fst (getLogger n w),
      (snd (getLogger n w))\<lparr>loggers := (loggers (snd (getLogger n w)))
         (fst (getLogger n w) :=
            (loggers (snd (getLogger n w)) (fst (getLogger n w)))
              \<lparr>level := 20,
               handlers := handlers (loggers (snd (getLogger n w)) (fst (getLogger n w)))
                             @ [StreamHandler log_format]\<rparr>)\<rparr>)"
  by (simp add: configure_logger_def Let_def case_prod_beta)



section \<open>The paths through \_make\_request and \_fetch\_page\<close>

lemma make_request_net_raises:
  assumes "net (api_request c m ep ps d) = Inl e"
  shows "make_request net tstart tnow c m ep ps d w =
           (Inl e, logger_error (logger c) (api_error_text e)
                     (w\<lparr>sent := sent w @ [api_request c m ep ps d]\<rparr>))"
  using assms by (simp add: make_request_def make_request_try_def Let_def)

lemma make_request_status_raises:
  assumes "net (api_request c m ep ps d) = Inr r" and "raise_for_status r = Some e"
  shows "make_request net tstart tnow c m ep ps d w =
           (Inl e, logger_error (logger c) (Lit ''HTTP error occurred: '' # exc_str e)
                     (w\<lparr>sent := sent w @ [api_request c m ep ps d]\<rparr>))"
  using assms raise_for_status_HTTPError [OF assms(2)]
  by (simp add: make_request_def make_request_try_def Let_def)

lemma make_request_json_raises:
  assumes "net (api_request c m ep ps d) = Inr r" and "raise_for_status r = None"
    and "json_result r = Inl e"
  shows "make_request net tstart tnow c m ep ps d w =
           (Inl e, logger_error (logger c) (api_error_text e)
                     (log_and_trace tnow (logger c) ''_make_request'' tstart (Some r)
                        (w\<lparr>sent := sent w @ [api_request c m ep ps d]\<rparr>)))"
  using assms by (simp add: make_request_def make_request_try_def Let_def)

lemma make_request_returns:
  assumes "net (api_request c m ep ps d) = Inr r" and "raise_for_status r = None"
    and "json_result r = Inr j"
  shows "make_request net tstart tnow c m ep ps d w =
           (Inr j, log_and_trace tnow (logger c) ''_make_request'' tstart (Some r)
                     (w\<lparr>sent := sent w @ [api_request c m ep ps d]\<rparr>))"
  using assms by (simp add: make_request_def make_request_try_def Let_def)

lemma fetch_page_net_raises:
  assumes "net (page_request s ep ps) = Inl e"
  shows "fetch_page net tstart tnow s ep ps w =
           (Inl e,
            if is_HTTPError e then
              logger_error (scraper_logger s)
                (Lit ''HTTP error occurred while fetching page: '' # exc_str e)
                (w\<lparr>sent := sent w @ [page_request s ep ps]\<rparr>)
            else if is_RequestException e then
              logger_error (scraper_logger s)
                (Lit ''Request error occurred while fetching page: '' # exc_str e)
                (w\<lparr>sent := sent w @ [page_request s ep ps]\<rparr>)
            else w\<lparr>sent := sent w @ [page_request s ep ps]\<rparr>)"
  using assms by (simp add: fetch_page_def fetch_page_try_def Let_def)

lemma fetch_page_status_raises:
  assumes "net (page_request s ep ps) = Inr r" and "raise_for_status r = Some e"
  shows "fetch_page net tstart tnow s ep ps w =
           (Inl e, logger_error (scraper_logger s)
                     (Lit ''HTTP error occurred while fetching page: '' # exc_str e)
                     (w\<lparr>sent := sent w @ [page_request s ep ps]\<rparr>))"
  using assms raise_for_status_HTTPError [OF assms(2)]
  by (simp add: fetch_page_def fetch_page_try_def Let_def)


section \<open>Facts about the concrete environments\<close>

lemma example_collector_fields [simp]:
  "logger example_collector = ''ExampleCollector''"
  "base_url example_collector = ''https://api.example.com''"
  "session example_collector = Session"
  by (simp_all add: example_collector_def api_init_def configure_logger_eq fst_getLogger
      configure_session_def Let_def case_prod_beta)

lemma example_scraper_fields [simp]:
  "scraper_logger example_scraper = ''ExampleScraper''"
  "scraper_base_url example_scraper = ''https://example.com''"
  by (simp_all add: example_scraper_def scraper_init_def configure_logger_eq fst_getLogger
      Let_def case_prod_beta)

lemma once_configured_loggers:
  "loggers (snd (configure_logger ''ExampleCollector'' fresh_world)) =
     (loggers fresh_world)
       (''ExampleCollector'' :=
          \<lparr>level = 20, handlers = [StreamHandler log_format], propagate = True,
           parent = Some ''root''\<rparr>)"
  by (simp add: configure_logger_def getLogger_def fresh_world_def Logger_def Let_def)

lemma example_world_loggers:
  "loggers example_world =
     (loggers fresh_world)
       (''ExampleCollector'' :=
          \<lparr>level = 20, handlers = [StreamHandler log_format], propagate = True,
           parent = Some ''root''\<rparr>,
        ''ExampleScraper'' :=
          \<lparr>level = 20, handlers = [StreamHandler log_format], propagate = True,
           parent = Some ''root''\<rparr>)"
  by (simp add: example_world_def scraper_init_def api_init_def configure_logger_def
      getLogger_def fresh_world_def Logger_def Let_def)

lemma fresh_root [simp]:
  "loggers fresh_world ''root'' = \<lparr>level = 30, handlers = [], propagate = True, parent = None\<rparr>"
  by (simp add: fresh_world_def Logger_def)

lemma once_configured_fields [simp]:
  "stderr (snd (configure_logger ''ExampleCollector'' fresh_world)) = []"
  "level (loggers (snd (configure_logger ''ExampleCollector'' fresh_world))
            ''ExampleCollector'') = 20"
  "handlers_found (loggers (snd (configure_logger ''ExampleCollector'' fresh_world)))
     ''ExampleCollector'' = [StreamHandler log_format]"
proof -
  show "stderr (snd (configure_logger ''ExampleCollector'' fresh_world)) = []"
    by (simp add: configure_logger_eq fresh_world_def)
  show "level (loggers (snd (configure_logger ''ExampleCollector'' fresh_world))
            ''ExampleCollector'') = 20"
    by (simp add: once_configured_loggers)
  show "handlers_found (loggers (snd (configure_logger ''ExampleCollector'' fresh_world)))
     ''ExampleCollector'' = [StreamHandler log_format]"
    by (simp add: once_configured_loggers handlers_found_def ancestry.simps)
qed

lemma example_world_fields [simp]:
  "stderr example_world = []"
  "sent example_world = []"
  "level (loggers example_world ''ExampleCollector'') = 20"
  "level (loggers example_world ''ExampleScraper'') = 20"
  "handlers_found (loggers example_world) ''ExampleCollector'' = [StreamHandler log_format]"
  "handlers_found (loggers example_world) ''ExampleScraper'' = [StreamHandler log_format]"
proof -
  show "stderr example_world = []" "sent example_world = []"
    by (simp_all add: example_world_def scraper_init_def api_init_def configure_logger_eq
        fresh_world_def Let_def case_prod_beta)
  show "level (loggers example_world ''ExampleCollector'') = 20"
    "level (loggers example_world ''ExampleScraper'') = 20"
    by (simp_all add: example_world_loggers)
  show "handlers_found (loggers example_world) ''ExampleCollector'' = [StreamHandler log_format]"
    "handlers_found (loggers example_world) ''ExampleScraper'' = [StreamHandler log_format]"
    by (simp_all add: example_world_loggers handlers_found_def ancestry.simps)
qed

lemma raise_for_status_not_found:
  "raise_for_status not_found =
     Some (Exn HTTPError [Dec 404, Lit '' Client Error: '', Lit ''Not Found'',
                          Lit '' for url: '', Lit ''https://api.example.com/users/1''])"
  by (simp add: raise_for_status_def not_found_def)

section \<open>Session configuration\<close>

text \<open>
  C1, as the code has it: a collector constructed with a non-empty token and a non-empty
  username and password carries both authentication modes on its session, the
  \<^verbatim>\<open>Authorization: Bearer\<close> header and the basic-auth pair. The two tests of
  \<^verbatim>\<open>_configure_session\<close> are independent, so the token does not switch basic auth off.
\<close>

theorem token_and_basic_auth_both_attached:
  assumes "tok \<noteq> []" and "u \<noteq> []" and "p \<noteq> []"
  shows "map_of (headers (session (fst (api_init cls burl (Some tok) (Some u) (Some p) w))))
           ''Authorization'' = Some (''Bearer '' @ tok)
       \<and> auth (session (fst (api_init cls burl (Some tok) (Some u) (Some p) w))) = Some (u, p)"
  using assms
  by (simp add: api_init_def configure_session_def Session_def truthy_def Let_def
      case_prod_beta)

theorem token_and_basic_auth_both_attached_witness:
  "''tok'' \<noteq> [] \<and> ''alice'' \<noteq> [] \<and> ''pw'' \<noteq> []
   \<and> map_of (headers (session (fst (api_init ''ExampleCollector'' ''https://api.example.com''
              (Some ''tok'') (Some ''alice'') (Some ''pw'') fresh_world))))
        ''Authorization'' = Some ''Bearer tok''
   \<and> auth (session (fst (api_init ''ExampleCollector'' ''https://api.example.com''
              (Some ''tok'') (Some ''alice'') (Some ''pw'') fresh_world)))
        = Some (''alice'', ''pw'')"
  using token_and_basic_auth_both_attached [of "''tok''" "''alice''" "''pw''"
      "''ExampleCollector''" "''https://api.example.com''" fresh_world]
  by simp

text \<open>
  The claim as written (basic auth is not attached when a token is given too) fails for
  token \<open>tok\<close>, username \<open>alice\<close>, password \<open>pw\<close>: the session holds the pair.
\<close>

theorem basic_auth_attached_beside_token:
  "auth (session (fst (api_init ''ExampleCollector'' ''https://api.example.com''
            (Some ''tok'') (Some ''alice'') (Some ''pw'') fresh_world)))
     = Some (''alice'', ''pw'')
   \<and> map_of (headers (session (fst (api_init ''ExampleCollector'' ''https://api.example.com''
            (Some ''tok'') (Some ''alice'') (Some ''pw'') fresh_world))))
        ''Authorization'' = Some ''Bearer tok''"
  by (simp add: api_init_def configure_session_def Session_def truthy_def Let_def
      case_prod_beta)

text \<open>
  C8: when the username or the password is missing, the constructed collector has no basic
  authentication on its session; the constructor has no failing path and returns the
  instance, which still holds the credentials it was given.
\<close>

theorem partial_credentials_inert:
  assumes "user = None \<or> pass = None"
  shows "auth (session (fst (api_init cls burl key user pass w))) = None
       \<and> username (fst (api_init cls burl key user pass w)) = user
       \<and> password (fst (api_init cls burl key user pass w)) = pass"
  using assms
  by (auto simp add: api_init_def configure_session_def Session_def Let_def case_prod_beta
      split: option.splits)

theorem partial_credentials_inert_witness:
  "(Some ''alice'' = None \<or> (None :: string option) = None)
   \<and> auth (session (fst (api_init ''ExampleCollector'' ''https://api.example.com'' None
              (Some ''alice'') None fresh_world))) = None
   \<and> username (fst (api_init ''ExampleCollector'' ''https://api.example.com'' None
              (Some ''alice'') None fresh_world)) = Some ''alice''
   \<and> password (fst (api_init ''ExampleCollector'' ''https://api.example.com'' None
              (Some ''alice'') None fresh_world)) = None"
  using partial_credentials_inert [of "Some ''alice''" None "''ExampleCollector''"
      "''https://api.example.com''" None fresh_world]
  by simp

section \<open>Timeouts\<close>


section \<open>Status classification\<close>



section \<open>Instrumentation and error logging\<close>

text \<open>
  C10: in \<^verbatim>\<open>_make_request\<close> the instrumentation line is written before the body is
  decoded. When the collector's logger is configured (level INFO, and \<open>hs\<close>, the handlers
  that a record of it reaches, not empty), the server answers with a status that is not an error status and the body does not
  decode, the line \<open>_make_request completed in ... with status code ...\<close> is written
  first, then the error line for the decoding failure, and the failure is what the call
  raises.
\<close>

theorem instrumentation_precedes_json_failure:
  assumes "level (loggers w (logger c)) = 20" and "handlers_found (loggers w) (logger c) = hs"
    and "hs \<noteq> []"
    and "net (api_request c m ep ps d) = Inr r"
    and "status_code r < 400 \<or> 600 \<le> status_code r"
    and "json_result r = Inl e"
  shows "fst (make_request net tstart tnow c m ep ps d w) = Inl e
       \<and> stderr (snd (make_request net tstart tnow c m ep ps d w)) =
           stderr w
           @ map (emit (logger c) INFO
                    (completed_with_status ''_make_request'' (tnow - tstart) (status_code r))) hs
           @ map (emit (logger c) ERROR (api_error_text e)) hs"
proof -
  have none: "raise_for_status r = None"
    using assms(5) by (simp add: raise_for_status_None_iff)
  then have okr: "ok r" by (simp add: ok_def)
  let ?w1 = "w\<lparr>sent := sent w @ [api_request c m ep ps d]\<rparr>"
  let ?w2 = "log_and_trace tnow (logger c) ''_make_request'' tstart (Some r) ?w1"
  have eq: "make_request net tstart tnow c m ep ps d w =
              (Inl e, logger_error (logger c) (api_error_text e) ?w2)"
    by (rule make_request_json_raises [where net = net, OF assms(4) none assms(6)])
  have s2: "stderr ?w2 = stderr w @ map (emit (logger c) INFO
              (completed_with_status ''_make_request'' (tnow - tstart) (status_code r))) hs"
    using assms(1,2) okr by (simp add: stderr_log_and_trace_ok)
  have "stderr (logger_error (logger c) (api_error_text e) ?w2) =
          stderr ?w2 @ map (emit (logger c) ERROR (api_error_text e)) hs"
    using assms(1,2,3) by (intro stderr_logger_error) simp_all
  with eq s2 show ?thesis by simp
qed

theorem instrumentation_precedes_json_failure_witness:
  "fst (make_request (responds not_json) 0 (1/4) example_collector ''GET'' ''users/1''
          None None example_world) = Inl (Exn ValueError [Lit ''Expecting value''])
   \<and> stderr (snd (make_request (responds not_json) 0 (1/4) example_collector ''GET''
          ''users/1'' None None example_world)) =
       [\<lparr>line_format = log_format, line_name = ''ExampleCollector'', line_level = INFO,
         line_message = [Lit ''_make_request'', Lit '' completed in '', Fixed2 (1/4),
                         Lit ''s with status code '', Dec 200]\<rparr>,
        \<lparr>line_format = log_format, line_name = ''ExampleCollector'', line_level = ERROR,
         line_message = [Lit ''Unexpected error: '', Lit ''Expecting value'']\<rparr>]"
  using instrumentation_precedes_json_failure [where net = "responds not_json"
      and r = not_json and c = example_collector and w = example_world
      and hs = "[StreamHandler log_format]" and e = "Exn ValueError [Lit ''Expecting value'']"
      and m = "''GET''" and ep = "''users/1''" and ps = None and d = None
      and tstart = 0 and tnow = "1/4"]
  by (simp add: responds_def not_json_def emit_def is_HTTPError_def is_RequestException_def)

text \<open>
  C2, as the code has it: when the collector's logger has level INFO, a call of
  \<^verbatim>\<open>_make_request\<close> records one instrumentation event (elapsed time, operation name,
  status code), written once by each handler that a record of the logger reaches, its own
  and those of its ancestors, exactly when the server
  answers with a status that is not an error status; when the request raises or the status
  is an error status, no instrumentation event is recorded.
\<close>

theorem instrumentation_only_without_error_status:
  assumes "level (loggers w (logger c)) = 20" and "handlers_found (loggers w) (logger c) = hs"
  shows "filter is_info (stderr (snd (make_request net tstart tnow c m ep ps d w))) =
           filter is_info (stderr w) @
           (case net (api_request c m ep ps d) of
              Inl e \<Rightarrow> []
            | Inr r \<Rightarrow>
                if status_code r < 400 \<or> 600 \<le> status_code r
                then map (emit (logger c) INFO
                       (completed_with_status ''_make_request'' (tnow - tstart)
                          (status_code r))) hs
                else [])"
proof (cases "net (api_request c m ep ps d)")
  case (Inl e)
  then show ?thesis by (simp add: make_request_net_raises [where net = net])
next
  case resp: (Inr r)
  show ?thesis
  proof (cases "raise_for_status r")
    case None
    then have okr: "ok r" by (simp add: ok_def)
    let ?w1 = "w\<lparr>sent := sent w @ [api_request c m ep ps d]\<rparr>"
    have s: "stderr (log_and_trace tnow (logger c) ''_make_request'' tstart (Some r) ?w1) =
               stderr w @ map (emit (logger c) INFO
                 (completed_with_status ''_make_request'' (tnow - tstart) (status_code r))) hs"
      using assms okr by (simp add: stderr_log_and_trace_ok)
    from None have st: "status_code r < 400 \<or> 600 \<le> status_code r"
      by (simp add: raise_for_status_None_iff)
    show ?thesis
    proof (cases "json_result r")
      case (Inl e)
      show ?thesis
        using resp st s
        by (simp add: make_request_json_raises [where net = net, OF resp None Inl])
    next
      case (Inr j)
      show ?thesis
        using resp st s
        by (simp add: make_request_returns [where net = net, OF resp None Inr])
    qed
  next
    case (Some e)
    then have "\<not> (status_code r < 400 \<or> 600 \<le> status_code r)"
      using raise_for_status_None_iff [of r] by simp
    then show ?thesis
      using resp by (simp add: make_request_status_raises [where net = net, OF resp Some])
  qed
qed

theorem instrumentation_only_without_error_status_witness:
  "filter is_info (stderr (snd (make_request (responds found) 0 (1/4) example_collector
      ''GET'' ''users/1'' None None example_world))) =
     [\<lparr>line_format = log_format, line_name = ''ExampleCollector'', line_level = INFO,
       line_message = [Lit ''_make_request'', Lit '' completed in '', Fixed2 (1/4),
                       Lit ''s with status code '', Dec 200]\<rparr>]
   \<and> filter is_info (stderr (snd (make_request (responds not_found) 0 (1/4) example_collector
      ''GET'' ''users/1'' None None example_world))) = []"
  using instrumentation_only_without_error_status [where net = "responds found"
      and c = example_collector and w = example_world and hs = "[StreamHandler log_format]"
      and m = "''GET''" and ep = "''users/1''" and ps = None and d = None
      and tstart = 0 and tnow = "1/4"]
    instrumentation_only_without_error_status [where net = "responds not_found"
      and c = example_collector and w = example_world and hs = "[StreamHandler log_format]"
      and m = "''GET''" and ep = "''users/1''" and ps = None and d = None
      and tstart = 0 and tnow = "1/4"]
  by (simp add: responds_def found_def not_found_def emit_def)

text \<open>
  The claim as written (one instrumentation event for every call, failure included) fails
  for a server that answers 404: the only line written is the error line.
\<close>

theorem no_instrumentation_event_on_404:
  "stderr (snd (make_request (responds not_found) 0 (1/4) example_collector ''GET''
      ''users/1'' None None example_world)) =
     [\<lparr>line_format = log_format, line_name = ''ExampleCollector'', line_level = ERROR,
       line_message = [Lit ''HTTP error occurred: '', Dec 404, Lit '' Client Error: '',
                       Lit ''Not Found'', Lit '' for url: '',
                       Lit ''https://api.example.com/users/1'']\<rparr>]"
  by (simp add: make_request_status_raises [where net = "responds not_found" and r = not_found]
      responds_def raise_for_status_not_found stderr_logger_error emit_def)

text \<open>
  C5, as the code has it. With both loggers configured (level INFO, and the handlers that
  a record reaches, the logger's own and those of its ancestors, not empty):
  every failure raised inside \<^verbatim>\<open>_make_request\<close> (by the request, by the status check or
  by decoding the body) reaches the caller as the same exception, after one request and
  one error record with the exception text, written once by each handler; every failure
  raised inside \<^verbatim>\<open>_fetch_page\<close> (by the request or by the status check) reaches the
  caller as the same exception after one request, with one such error record when it is a
  \<^verbatim>\<open>RequestException\<close> and with no log line when it is not.
\<close>

theorem failures_logged_then_reraised:
  assumes "level (loggers w (logger c)) = 20" and "handlers_found (loggers w) (logger c) = hs"
    and "hs \<noteq> []"
    and "level (loggers w (scraper_logger s)) = 20"
    and "handlers_found (loggers w) (scraper_logger s) = hs'" and "hs' \<noteq> []"
  shows "(\<forall>e. (net (api_request c m ep ps d) = Inl e \<or>
               (\<exists>r. net (api_request c m ep ps d) = Inr r \<and>
                    (raise_for_status r = Some e \<or>
                     raise_for_status r = None \<and> json_result r = Inl e))) \<longrightarrow>
            fst (make_request net tstart tnow c m ep ps d w) = Inl e \<and>
            sent (snd (make_request net tstart tnow c m ep ps d w)) =
              sent w @ [api_request c m ep ps d] \<and>
            filter is_error (stderr (snd (make_request net tstart tnow c m ep ps d w))) =
              filter is_error (stderr w) @ map (emit (logger c) ERROR (api_error_text e)) hs)
       \<and> (\<forall>e. (net (page_request s ep' ps') = Inl e \<or>
               (\<exists>r. net (page_request s ep' ps') = Inr r \<and> raise_for_status r = Some e)) \<longrightarrow>
            fst (fetch_page net tstart tnow s ep' ps' w) = Inl e \<and>
            sent (snd (fetch_page net tstart tnow s ep' ps' w)) =
              sent w @ [page_request s ep' ps'] \<and>
            stderr (snd (fetch_page net tstart tnow s ep' ps' w)) =
              stderr w @
              (if is_RequestException e
               then map (emit (scraper_logger s) ERROR
                      (Lit (if is_HTTPError e
                            then ''HTTP error occurred while fetching page: ''
                            else ''Request error occurred while fetching page: '') #
                       exc_str e)) hs'
               else []))"
proof (intro conjI allI impI)
  fix e
  assume raised: "net (api_request c m ep ps d) = Inl e \<or>
               (\<exists>r. net (api_request c m ep ps d) = Inr r \<and>
                    (raise_for_status r = Some e \<or>
                     raise_for_status r = None \<and> json_result r = Inl e))"
  let ?w1 = "w\<lparr>sent := sent w @ [api_request c m ep ps d]\<rparr>"
  have err: "\<And>w'. loggers w' = loggers w \<Longrightarrow>
                stderr (logger_error (logger c) (api_error_text e) w') =
                stderr w' @ map (emit (logger c) ERROR (api_error_text e)) hs"
    using assms(1,2,3) by (intro stderr_logger_error) simp_all
  from raised consider
      (net) "net (api_request c m ep ps d) = Inl e"
    | (status) r where "net (api_request c m ep ps d) = Inr r" "raise_for_status r = Some e"
    | (body) r where "net (api_request c m ep ps d) = Inr r" "raise_for_status r = None"
        "json_result r = Inl e"
    by blast
  then have "\<exists>w'. make_request net tstart tnow c m ep ps d w =
                   (Inl e, logger_error (logger c) (api_error_text e) w') \<and>
                 loggers w' = loggers w \<and> sent w' = sent w @ [api_request c m ep ps d] \<and>
                 filter is_error (stderr w') = filter is_error (stderr w)"
  proof cases
    case net
    show ?thesis
      by (rule exI [of _ ?w1]) (simp add: make_request_net_raises [where net = net, OF net])
  next
    case status
    have "is_HTTPError e" by (rule raise_for_status_HTTPError [OF status(2)])
    then show ?thesis
      by (intro exI [of _ ?w1])
         (simp add: make_request_status_raises [where net = net, OF status])
  next
    case body
    show ?thesis
      by (rule exI [of _ "log_and_trace tnow (logger c) ''_make_request'' tstart (Some r) ?w1"])
         (simp add: make_request_json_raises [where net = net, OF body])
  qed
  then obtain w' where w': "make_request net tstart tnow c m ep ps d w =
                   (Inl e, logger_error (logger c) (api_error_text e) w')"
     "loggers w' = loggers w" "sent w' = sent w @ [api_request c m ep ps d]"
     "filter is_error (stderr w') = filter is_error (stderr w)"
    by blast
  show "fst (make_request net tstart tnow c m ep ps d w) = Inl e" using w'(1) by simp
  show "sent (snd (make_request net tstart tnow c m ep ps d w)) =
          sent w @ [api_request c m ep ps d]"
    using w'(1,3) by simp
  show "filter is_error (stderr (snd (make_request net tstart tnow c m ep ps d w))) =
          filter is_error (stderr w) @ map (emit (logger c) ERROR (api_error_text e)) hs"
    using w'(1,4) err [OF w'(2)] by simp
next
  fix e
  assume raised: "net (page_request s ep' ps') = Inl e \<or>
               (\<exists>r. net (page_request s ep' ps') = Inr r \<and> raise_for_status r = Some e)"
  let ?w1 = "w\<lparr>sent := sent w @ [page_request s ep' ps']\<rparr>"
  have err: "\<And>msg. stderr (logger_error (scraper_logger s) msg ?w1) =
                stderr w @ map (emit (scraper_logger s) ERROR msg) hs'"
    using stderr_logger_error [of ?w1 "scraper_logger s" hs'] assms(4,5,6) by simp
  from raised consider
      (net) "net (page_request s ep' ps') = Inl e"
    | (status) r where "net (page_request s ep' ps') = Inr r" "raise_for_status r = Some e"
    by blast
  then have eq: "fetch_page net tstart tnow s ep' ps' w =
           (Inl e,
            if is_RequestException e then
              logger_error (scraper_logger s)
                (Lit (if is_HTTPError e
                      then ''HTTP error occurred while fetching page: ''
                      else ''Request error occurred while fetching page: '') # exc_str e) ?w1
            else ?w1)"
  proof cases
    case net
    show ?thesis
      by (simp add: fetch_page_net_raises [where net = net, OF net] is_HTTPError_def
          is_RequestException_def)
  next
    case status
    have "is_HTTPError e" by (rule raise_for_status_HTTPError [OF status(2)])
    then show ?thesis
      by (simp add: fetch_page_status_raises [where net = net, OF status] is_HTTPError_def
          is_RequestException_def)
  qed
  show "fst (fetch_page net tstart tnow s ep' ps' w) = Inl e" using eq by simp
  show "sent (snd (fetch_page net tstart tnow s ep' ps' w)) = sent w @ [page_request s ep' ps']"
    using eq by simp
  show "stderr (snd (fetch_page net tstart tnow s ep' ps' w)) =
              stderr w @
              (if is_RequestException e
               then map (emit (scraper_logger s) ERROR
                      (Lit (if is_HTTPError e
                            then ''HTTP error occurred while fetching page: ''
                            else ''Request error occurred while fetching page: '') #
                       exc_str e)) hs'
               else [])"
    using eq err by simp
qed

theorem failures_logged_then_reraised_witness:
  "fst (make_request (fails_with (Exn Timeout [Lit ''timed out'']))
          0 (1/4) example_collector ''GET'' ''users/1'' None None example_world) =
     Inl (Exn Timeout [Lit ''timed out''])
   \<and> filter is_error (stderr (snd (make_request (fails_with (Exn Timeout [Lit ''timed out'']))
          0 (1/4) example_collector ''GET'' ''users/1'' None None example_world))) =
       [\<lparr>line_format = log_format, line_name = ''ExampleCollector'', line_level = ERROR,
         line_message = [Lit ''Request error occurred: '', Lit ''timed out'']\<rparr>]
   \<and> fst (fetch_page (responds not_found)
          0 (1/4) example_scraper ''users/1'' None example_world) =
     Inl (Exn HTTPError [Dec 404, Lit '' Client Error: '', Lit ''Not Found'',
                         Lit '' for url: '', Lit ''https://api.example.com/users/1''])
   \<and> stderr (snd (fetch_page (responds not_found)
          0 (1/4) example_scraper ''users/1'' None example_world)) =
       [\<lparr>line_format = log_format, line_name = ''ExampleScraper'', line_level = ERROR,
         line_message = [Lit ''HTTP error occurred while fetching page: '', Dec 404,
                         Lit '' Client Error: '', Lit ''Not Found'',
                         Lit '' for url: '', Lit ''https://api.example.com/users/1'']\<rparr>]"
proof -
  note a = failures_logged_then_reraised [where w = example_world and c = example_collector
      and s = example_scraper
      and hs = "[StreamHandler log_format]" and hs' = "[StreamHandler log_format]"
      and net = "fails_with (Exn Timeout [Lit ''timed out''])"
      and m = "''GET''" and ep = "''users/1''" and ps = None and d = None
      and tstart = 0 and tnow = "1/4", THEN conjunct1, THEN spec,
      of "Exn Timeout [Lit ''timed out'']"]
  note b = failures_logged_then_reraised [where w = example_world and c = example_collector
      and s = example_scraper
      and hs = "[StreamHandler log_format]" and hs' = "[StreamHandler log_format]"
      and net = "responds not_found"
      and ep' = "''users/1''" and ps' = None
      and tstart = 0 and tnow = "1/4", THEN conjunct2, THEN spec,
      of "Exn HTTPError [Dec 404, Lit '' Client Error: '', Lit ''Not Found'',
                         Lit '' for url: '', Lit ''https://api.example.com/users/1'']"]
  show ?thesis
    using a b raise_for_status_not_found
    by (simp add: fails_with_def responds_def emit_def is_HTTPError_def is_RequestException_def)
qed

text \<open>
  The claim as written (an error line for every failure inside dispatch or fetch) fails
  for \<^verbatim>\<open>_fetch_page\<close> when the request raises an exception that is not a
  \<^verbatim>\<open>RequestException\<close>, here a \<^verbatim>\<open>TypeError\<close>: it reaches the caller and nothing is
  logged.
\<close>

theorem fetch_page_unlogged_failure:
  "fst (fetch_page (fails_with (Exn TypeError [Lit ''unhashable type'']))
          0 (1/4) example_scraper ''page'' None example_world) =
     Inl (Exn TypeError [Lit ''unhashable type''])
   \<and> stderr (snd (fetch_page (fails_with (Exn TypeError [Lit ''unhashable type'']))
          0 (1/4) example_scraper ''page'' None example_world)) = []"
  by (simp add: fetch_page_net_raises
        [where net = "fails_with (Exn TypeError [Lit ''unhashable type''])"]
      fails_with_def is_HTTPError_def is_RequestException_def)

section \<open>Parsing\<close>

text \<open>
  C3, as the code has it: \<^verbatim>\<open>_parse_html\<close> sends no request; when the markup engine
  returns a tree it returns that tree and leaves the process state as it was, so it logs
  nothing; when the engine raises, it raises a \<^verbatim>\<open>ValueError\<close> that wraps the cause and,
  before that, logs one error record \<open>Error while parsing HTML: ...\<close>, written once by
  each handler that a record of the scraper's configured logger reaches.
\<close>

theorem parse_html_logs_only_on_failure:
  "sent (snd (parse_html soup s html_content w)) = sent w
   \<and> (\<forall>tree. soup html_content = Inr tree \<longrightarrow>
         parse_html soup s html_content w = (Inr tree, w))
   \<and> (\<forall>err. soup html_content = Inl err \<longrightarrow>
         fst (parse_html soup s html_content w) =
           Inl (Exn ValueError (Lit ''Invalid HTML content: '' # exc_str err)) \<and>
         (level (loggers w (scraper_logger s)) = 20 \<and>
          handlers_found (loggers w) (scraper_logger s) \<noteq> [] \<longrightarrow>
            stderr (snd (parse_html soup s html_content w)) =
              stderr w @ map (emit (scraper_logger s) ERROR
                              (Lit ''Error while parsing HTML: '' # exc_str err))
                           (handlers_found (loggers w) (scraper_logger s))))"
  by (auto simp add: parse_html_def stderr_logger_error split: sum.splits)

theorem parse_html_logs_only_on_failure_witness:
  "parse_html accepts example_scraper ''<html></html>'' example_world = (Inr (), example_world)
   \<and> fst (parse_html (rejects (Exn Exception [Lit ''unexpected char'']))
            example_scraper ''<![n'' example_world) =
       Inl (Exn ValueError [Lit ''Invalid HTML content: '', Lit ''unexpected char''])
   \<and> stderr (snd (parse_html (rejects (Exn Exception [Lit ''unexpected char'']))
            example_scraper ''<![n'' example_world)) =
       [\<lparr>line_format = log_format, line_name = ''ExampleScraper'', line_level = ERROR,
         line_message = [Lit ''Error while parsing HTML: '', Lit ''unexpected char'']\<rparr>]"
  using parse_html_logs_only_on_failure [where soup = accepts and s = example_scraper
      and html_content = "''<html></html>''" and w = example_world]
    parse_html_logs_only_on_failure [where
      soup = "rejects (Exn Exception [Lit ''unexpected char''])" and s = example_scraper
      and html_content = "''<![n''" and w = example_world]
  by (simp add: accepts_def rejects_def emit_def)

text \<open>
  The claim as written (no log output, in particular none on a parse failure) fails when
  the markup engine raises: the call writes an error line.
\<close>

theorem parse_html_failure_writes_log_line:
  "stderr (snd (parse_html (rejects (Exn Exception [Lit ''unexpected char'']))
            example_scraper ''<![n'' example_world)) =
     [\<lparr>line_format = log_format, line_name = ''ExampleScraper'', line_level = ERROR,
       line_message = [Lit ''Error while parsing HTML: '', Lit ''unexpected char'']\<rparr>]
   \<and> stderr example_world = []"
  by (simp add: parse_html_def rejects_def stderr_logger_error emit_def)

section \<open>The logging utilities\<close>

text \<open>
  C7 at a response with an error status: \<^verbatim>\<open>log_and_trace\<close> is given the response of a
  404 and a logger configured once. The test \<^verbatim>\<open>if response\<close> is false for it, so the
  line that is written has no status code.
\<close>

theorem log_and_trace_drops_status_of_error_response:
  "stderr (log_and_trace (5/4) ''ExampleCollector'' ''_make_request'' 1 (Some not_found)
             (snd (configure_logger ''ExampleCollector'' fresh_world)))
   = [\<lparr>line_format = log_format, line_name = ''ExampleCollector'', line_level = INFO,
       line_message = [Lit ''_make_request'', Lit '' completed in '', Fixed2 (1/4),
                       Lit ''s'']\<rparr>]"
  using stderr_log_and_trace_not_ok
      [of "snd (configure_logger ''ExampleCollector'' fresh_world)" "''ExampleCollector''"
          "[StreamHandler log_format]" not_found "5/4" "''_make_request''" 1]
  by (simp add: ok_def raise_for_status_not_found emit_def)




end
